theory Spec2Isabelle
  imports Main
begin

section \<open>The Call class of lib/call.js\<close>

text \<open>
  A shallow embedding of \<^verbatim>\<open>class Call\<close>. The instance fields become a record, every
  method and every callback the class registers becomes a function from the record to an
  outcome: the record after the handler has run, the calls it made on its collaborators
  (listeners, the account, the RTCPeerConnection, timers) in order, and the exception it
  raised, if any. JavaScript runs each handler to completion, so a run of the object is
  a list of handler invocations.

  The collaborators are not part of the file: \<^verbatim>\<open>utils\<close>, the account and the browser's
  RTCPeerConnection. Calls on them are recorded, not interpreted; of the peer connection
  only the two stream lists are kept, since the class reads them back. Listeners called
  by \<^verbatim>\<open>emit\<close> are taken not to raise and not to call back into the object.
\<close>

subsection \<open>Values\<close>

text \<open>A JavaScript reference that the code compares with \<^verbatim>\<open>null\<close>.\<close>

datatype 'a jsref = JsNull | JsUndefined | JsObj 'a

type_synonym track = string
type_synonym candidate = string

datatype mediaStream = MediaStream (label: string) (getAudioTracks: "track list")

datatype pcConfig = PcConfig (iceServers: "string list")

datatype identity = Identity string "string option"

datatype rtcDTMFSender = RTCDTMFSender track

datatype error = Error string | TypeError string

text \<open>
  The RTCPeerConnection as far as the class looks into it: its configuration and the
  two stream lists. \<^verbatim>\<open>addStream\<close> appends to the local list; the remote list is
  filled by the browser and is arbitrary in what follows.
\<close>

record rtcPeerConnection =
  pcConfiguration :: pcConfig
  localStreams :: "mediaStream list"
  remoteStreams :: "mediaStream list"

text \<open>The fields set by the constructor; \<open>None\<close> is \<^verbatim>\<open>null\<close>.\<close>

record call =
  account_id :: string
  cid :: "string option"
  direction :: "string option"
  pc :: "rtcPeerConnection option"
  state :: "string option"
  terminated :: bool
  incomingSdp :: "string option"
  localIdentity :: identity
  remoteIdentity :: "identity option"
  dtmfSender :: "rtcDTMFSender option"
  delay_established :: bool
  setup_in_progress :: bool

record options =
  localStream :: "mediaStream option"
  pcConfigOpt :: "pcConfig option"
  offerOptions :: "string option"
  answerOptions :: "string option"

record caller =
  uri :: string
  display_name :: "string option"

record message =
  msg_event :: string
  msg_state :: string
  msg_sdp :: string
  msg_reason :: "string option"

subsection \<open>Calls on the collaborators\<close>

datatype request =
    SessionCreate string "string option" string string
  | SessionTerminate "string option"
  | SessionTrickle "string option" "candidate list"
  | SessionAnswer "string option" string

text \<open>
  The third argument of a stateChanged notification: \<^verbatim>\<open>{}\<close> or \<^verbatim>\<open>{reason: r}\<close>.
\<close>

datatype evdata = NoData | Reason "string option"

text \<open>
  The description handed to \<^verbatim>\<open>setRemoteDescription\<close>: the stored offer, or
  \<^verbatim>\<open>utils.mungeSdp(message.sdp)\<close>, which is kept symbolic.
\<close>

datatype description = StoredSdp "string option" | MungedSdp string

datatype effect =
    Emit_stateChanged "string option" string evdata
  | Emit_localStreamAdded mediaStream
  | Emit_streamAdded mediaStream
  | Emit_dtmfToneSent string
  | SendRequest request
  | SetTimeout nat
  | Calls_delete "string option"
  | New_RTCPeerConnection pcConfig
  | Pc_addStream mediaStream
  | Pc_setRemoteDescription string description
  | CreateLocalSdp string "string option"
  | CloseMediaStream mediaStream
  | Pc_close
  | Pc_createDTMFSender "track jsref"
  | Dtmf_addEventListener
  | Dtmf_removeEventListener
  | InsertDTMF string nat nat
  | Uncaught error

record outcome =
  st :: call
  out :: "effect list"
  exn :: "error option"

definition ok :: "call \<Rightarrow> effect list \<Rightarrow> outcome" where
  "ok c es = \<lparr>st = c, out = es, exn = None\<rparr>"

definition throw :: "call \<Rightarrow> effect list \<Rightarrow> error \<Rightarrow> outcome" where
  "throw c es e = \<lparr>st = c, out = es, exn = Some e\<rparr>"

text \<open>Sequencing: the rest of a method body does not run after a raise.\<close>

definition andThen :: "outcome \<Rightarrow> (call \<Rightarrow> outcome) \<Rightarrow> outcome" where
  "andThen r f =
     (case exn r of
        Some e \<Rightarrow> r
      | None \<Rightarrow> (let r' = f (st r) in \<lparr>st = st r', out = out r @ out r', exn = exn r'\<rparr>))"

subsection \<open>Constructor and getters\<close>

definition new_call :: "string \<Rightarrow> string option \<Rightarrow> call" where
  "new_call accId accName =
     \<lparr>account_id = accId, cid = None, direction = None, pc = None, state = None,
      terminated = False, incomingSdp = None, localIdentity = Identity accId accName,
      remoteIdentity = None, dtmfSender = None, delay_established = False,
      setup_in_progress = False\<rparr>"

definition getLocalStreams :: "call \<Rightarrow> mediaStream list" where
  "getLocalStreams c = (case pc c of Some p \<Rightarrow> localStreams p | None \<Rightarrow> [])"

definition getRemoteStreams :: "call \<Rightarrow> mediaStream list" where
  "getRemoteStreams c = (case pc c of Some p \<Rightarrow> remoteStreams p | None \<Rightarrow> [])"

subsection \<open>Private API\<close>

definition initRTCPeerConnection :: "call \<Rightarrow> pcConfig \<Rightarrow> outcome" where
  "initRTCPeerConnection c cfg =
     (if pc c \<noteq> None then throw c [] (Error ''RTCPeerConnection already initialized'')
      else ok (c\<lparr>pc := Some \<lparr>pcConfiguration = cfg, localStreams = [], remoteStreams = []\<rparr>\<rparr>)
              [New_RTCPeerConnection cfg])"

text \<open>
  \<^verbatim>\<open>this._pc.addStream(s)\<close> and \<^verbatim>\<open>this._pc.setRemoteDescription(...)\<close>: a method call
  on \<^verbatim>\<open>null\<close> raises a TypeError.
\<close>

definition pc_addStream :: "mediaStream \<Rightarrow> call \<Rightarrow> outcome" where
  "pc_addStream s c =
     (case pc c of
        None \<Rightarrow> throw c [] (TypeError ''Cannot read property addStream of null'')
      | Some p \<Rightarrow> ok (c\<lparr>pc := Some (p\<lparr>localStreams := localStreams p @ [s]\<rparr>)\<rparr>) [Pc_addStream s])"

definition pc_setRemoteDescription :: "string \<Rightarrow> description \<Rightarrow> call \<Rightarrow> outcome" where
  "pc_setRemoteDescription ty d c =
     (case pc c of
        None \<Rightarrow> throw c [] (TypeError ''Cannot read property setRemoteDescription of null'')
      | Some p \<Rightarrow> ok c [Pc_setRemoteDescription ty d])"

definition closeRTCPeerConnection :: "call \<Rightarrow> outcome" where
  "closeRTCPeerConnection c =
     (case pc c of
        None \<Rightarrow> ok c []
      | Some p \<Rightarrow>
          (let closing = map CloseMediaStream (localStreams p) @
                         map CloseMediaStream (remoteStreams p) @ [Pc_close];
               c1 = c\<lparr>pc := None\<rparr>
           in if dtmfSender c1 \<noteq> None
              then ok (c1\<lparr>dtmfSender := None\<rparr>) (closing @ [Dtmf_removeEventListener])
              else ok c1 closing))"

definition localTerminate :: "call \<Rightarrow> string \<Rightarrow> outcome" where
  "localTerminate c err =
     (if terminated c then ok c []
      else
        (let oldState = state c in
         andThen (andThen (ok (c\<lparr>terminated := True\<rparr>) [Calls_delete (cid c)])
                          closeRTCPeerConnection)
                 (\<lambda>c'. ok c' [Emit_stateChanged oldState ''terminated'' (Reason (Some err))])))"

definition sendCall :: "call \<Rightarrow> string \<Rightarrow> string \<Rightarrow> outcome" where
  "sendCall c u sdp = ok c [SendRequest (SessionCreate (account_id c) (cid c) u sdp)]"

definition sendTerminate :: "call \<Rightarrow> outcome" where
  "sendTerminate c = ok c [SendRequest (SessionTerminate (cid c)), SetTimeout 150]"

definition sendTrickle :: "call \<Rightarrow> candidate option \<Rightarrow> outcome" where
  "sendTrickle c cand =
     ok c [SendRequest (SessionTrickle (cid c) (case cand of Some x \<Rightarrow> [x] | None \<Rightarrow> []))]"

definition sendAnswer :: "call \<Rightarrow> string \<Rightarrow> outcome" where
  "sendAnswer c sdp = ok c [SendRequest (SessionAnswer (cid c) sdp)]"

subsection \<open>Public API\<close>

definition terminate :: "call \<Rightarrow> outcome" where
  "terminate c = (if terminated c then ok c [] else sendTerminate c)"

definition show_state :: "string option \<Rightarrow> string" where
  "show_state s = (case s of None \<Rightarrow> ''null'' | Some x \<Rightarrow> x)"

definition answer :: "call \<Rightarrow> options \<Rightarrow> outcome" where
  "answer c opts =
     (if state c \<noteq> Some ''incoming''
      then throw c [] (Error (''Call is not in the incoming state: '' @ show_state (state c)))
      else case localStream opts of
        None \<Rightarrow> throw c [] (Error ''Missing localStream'')
      | Some s \<Rightarrow>
          (let cfg = (case pcConfigOpt opts of Some g \<Rightarrow> g | None \<Rightarrow> PcConfig [])
           in andThen (andThen (andThen (initRTCPeerConnection c cfg) (pc_addStream s))
                               (\<lambda>c'. ok c' [Emit_localStreamAdded s]))
                      (\<lambda>c'. pc_setRemoteDescription ''offer'' (StoredSdp (incomingSdp c')) c')))"

text \<open>
  \<^verbatim>\<open>sendDtmf\<close>. The parameter \<open>mk\<close> is what \<^verbatim>\<open>this._pc.createDTMFSender(track)\<close>
  does in the browser: it returns a sender or \<^verbatim>\<open>null\<close>, or raises. The track is read
  inside \<^verbatim>\<open>try\<close>: with no local stream, \<^verbatim>\<open>getLocalStreams()[0]\<close> is \<^verbatim>\<open>undefined\<close>,
  the method call on it raises, the \<^verbatim>\<open>catch\<close> ignores that and the track stays
  \<^verbatim>\<open>null\<close>; with a first stream that has no audio track, \<^verbatim>\<open>getAudioTracks()[0]\<close> is
  \<^verbatim>\<open>undefined\<close> and nothing is raised.
\<close>

definition first_audio_track :: "rtcPeerConnection \<Rightarrow> track jsref" where
  "first_audio_track p =
     (case localStreams p of
        [] \<Rightarrow> JsNull
      | s # _ \<Rightarrow> (case getAudioTracks s of [] \<Rightarrow> JsUndefined | t # _ \<Rightarrow> JsObj t))"

definition create_sender ::
  "(track jsref \<Rightarrow> error + rtcDTMFSender option) \<Rightarrow> call \<Rightarrow> outcome" where
  "create_sender mk c =
     (if dtmfSender c = None then
        (case pc c of
           None \<Rightarrow> ok c []
         | Some p \<Rightarrow>
             (let track = first_audio_track p in
              if track \<noteq> JsNull then
                (case mk track of
                   Inl e \<Rightarrow> throw c [Pc_createDTMFSender track] e
                 | Inr s \<Rightarrow>
                     (if s \<noteq> None
                      then ok (c\<lparr>dtmfSender := s\<rparr>) [Pc_createDTMFSender track, Dtmf_addEventListener]
                      else ok (c\<lparr>dtmfSender := s\<rparr>) [Pc_createDTMFSender track]))
              else ok c []))
      else ok c [])"

definition sendDtmf ::
  "(track jsref \<Rightarrow> error + rtcDTMFSender option) \<Rightarrow> call \<Rightarrow> string \<Rightarrow> nat \<Rightarrow> nat \<Rightarrow> outcome" where
  "sendDtmf mk c tones duration interToneGap =
     andThen (create_sender mk c)
       (\<lambda>c'. if dtmfSender c' \<noteq> None then ok c' [InsertDTMF tones duration interToneGap]
             else ok c' [])"

subsection \<open>Initialisation\<close>

text \<open>\<open>uuid\<close> is the value \<^verbatim>\<open>uuidv4()\<close> returns.\<close>

definition initOutgoing :: "call \<Rightarrow> string \<Rightarrow> string \<Rightarrow> options \<Rightarrow> outcome" where
  "initOutgoing c uuid u opts =
     (if CHR ''@'' \<notin> set u then throw c [] (Error ''Invalid URI'')
      else case localStream opts of
        None \<Rightarrow> throw c [] (Error ''Missing localStream'')
      | Some s \<Rightarrow>
          (let c1 = c\<lparr>cid := Some uuid, direction := Some ''outgoing'',
                      remoteIdentity := Some (Identity u None)\<rparr>;
               cfg = (case pcConfigOpt opts of Some g \<Rightarrow> g | None \<Rightarrow> PcConfig [])
           in andThen (andThen (initRTCPeerConnection c1 cfg) (pc_addStream s))
                      (\<lambda>c'. ok c' [Emit_localStreamAdded s, CreateLocalSdp ''offer'' (offerOptions opts)])))"

definition initIncoming :: "call \<Rightarrow> string \<Rightarrow> caller \<Rightarrow> string \<Rightarrow> outcome" where
  "initIncoming c i from sdp =
     ok (c\<lparr>cid := Some i, remoteIdentity := Some (Identity (uri from) (display_name from)),
           incomingSdp := Some sdp, direction := Some ''incoming'', state := Some ''incoming''\<rparr>) []"

subsection \<open>Inbound events\<close>

definition handleEvent :: "call \<Rightarrow> message \<Rightarrow> outcome" where
  "handleEvent c m =
     (if msg_event m = ''state'' then
        (let oldState = state c;
             newState = msg_state m;
             c1 = c\<lparr>state := Some newState\<rparr>
         in if newState = ''accepted'' \<and> direction c1 = Some ''outgoing'' then
              andThen (ok (c1\<lparr>setup_in_progress := True\<rparr>) [Emit_stateChanged oldState newState NoData])
                      (pc_setRemoteDescription ''answer'' (MungedSdp (msg_sdp m)))
            else if newState = ''established'' \<and> direction c1 = Some ''outgoing'' then
              (if setup_in_progress c1 then ok (c1\<lparr>delay_established := True\<rparr>) []
               else ok c1 [Emit_stateChanged oldState newState NoData])
            else if newState = ''terminated'' then
              andThen (ok (c1\<lparr>terminated := True\<rparr>)
                          [Emit_stateChanged oldState newState (Reason (msg_reason m)),
                           Calls_delete (cid c1)])
                      closeRTCPeerConnection
            else ok c1 [Emit_stateChanged oldState newState NoData])
      else ok c [])"

text \<open>The two callbacks given to \<^verbatim>\<open>setRemoteDescription\<close> on \<^verbatim>\<open>accepted\<close>.\<close>

definition acceptedRemoteSet :: "call \<Rightarrow> outcome" where
  "acceptedRemoteSet c =
     (let c1 = c\<lparr>setup_in_progress := False\<rparr>
      in if \<not> terminated c1 then
           (if delay_established c1 then
              (let oldState = state c1;
                   c2 = c1\<lparr>state := Some ''established''\<rparr>
               in ok (c2\<lparr>delay_established := False\<rparr>)
                     [Emit_stateChanged oldState ''established'' NoData])
            else ok c1 [])
         else ok c1 [])"

definition acceptedRemoteFailed :: "call \<Rightarrow> outcome" where
  "acceptedRemoteFailed c = terminate c"

text \<open>The callback given to \<^verbatim>\<open>setTimeout\<close> by \<^verbatim>\<open>_sendTerminate\<close>.\<close>

definition terminateTimeout :: "call \<Rightarrow> outcome" where
  "terminateTimeout c =
     andThen (if \<not> terminated c then localTerminate c ''200 OK'' else ok c [])
             (\<lambda>c'. ok (c'\<lparr>terminated := True\<rparr>) [])"

text \<open>
  The callbacks given to \<^verbatim>\<open>_sendRequest\<close>; \<open>Some e\<close> is a truthy \<^verbatim>\<open>error\<close> argument.
\<close>

definition callRequestDone :: "call \<Rightarrow> string option \<Rightarrow> outcome" where
  "callRequestDone c err = (case err of Some e \<Rightarrow> localTerminate c e | None \<Rightarrow> ok c [])"

definition terminateRequestDone :: "call \<Rightarrow> string option \<Rightarrow> outcome" where
  "terminateRequestDone c err = (case err of Some e \<Rightarrow> localTerminate c e | None \<Rightarrow> ok c [])"

definition trickleRequestDone :: "call \<Rightarrow> string option \<Rightarrow> outcome" where
  "trickleRequestDone c err = (case err of Some e \<Rightarrow> localTerminate c e | None \<Rightarrow> ok c [])"

definition answerRequestDone :: "call \<Rightarrow> string option \<Rightarrow> outcome" where
  "answerRequestDone c err = (case err of Some e \<Rightarrow> terminate c | None \<Rightarrow> ok c [])"

text \<open>The listeners registered on the RTCPeerConnection and on the tone sender.\<close>

definition onIceCandidate :: "call \<Rightarrow> candidate option \<Rightarrow> outcome" where
  "onIceCandidate c cand = sendTrickle c cand"

definition onAddStream :: "call \<Rightarrow> mediaStream \<Rightarrow> outcome" where
  "onAddStream c s = ok c [Emit_streamAdded s]"

definition onDtmf :: "call \<Rightarrow> string \<Rightarrow> outcome" where
  "onDtmf c tone = ok c [Emit_dtmfToneSent tone]"

text \<open>
  The continuations of \<^verbatim>\<open>answer\<close> (remote offer applied or refused, local answer
  created or not) and of \<^verbatim>\<open>_initOutgoing\<close> (local offer created or not). The values a
  closure captured come with the invocation.
\<close>

definition answerRemoteSet :: "call \<Rightarrow> string option \<Rightarrow> outcome" where
  "answerRemoteSet c aopts = ok c [CreateLocalSdp ''answer'' aopts]"

definition answerRemoteFailed :: "call \<Rightarrow> outcome" where
  "answerRemoteFailed c = terminate c"

definition answerSdpCreated :: "call \<Rightarrow> string \<Rightarrow> outcome" where
  "answerSdpCreated c sdp = sendAnswer c sdp"

definition answerSdpFailed :: "call \<Rightarrow> outcome" where
  "answerSdpFailed c = terminate c"

definition offerSdpCreated :: "call \<Rightarrow> string \<Rightarrow> string \<Rightarrow> outcome" where
  "offerSdpCreated c u sdp = sendCall c u sdp"

definition offerSdpFailed :: "call \<Rightarrow> string \<Rightarrow> outcome" where
  "offerSdpFailed c reason = localTerminate c reason"

subsection \<open>Runs\<close>

datatype invocation =
    Answer options
  | Terminate
  | SendDtmf "track jsref \<Rightarrow> error + rtcDTMFSender option" string nat nat
  | InitOutgoing string string options
  | InitIncoming string caller string
  | HandleEvent message
  | AcceptedRemoteSet
  | AcceptedRemoteFailed
  | TerminateTimeout
  | CallRequestDone "string option"
  | TerminateRequestDone "string option"
  | TrickleRequestDone "string option"
  | AnswerRequestDone "string option"
  | OnIceCandidate "candidate option"
  | OnAddStream mediaStream
  | OnDtmf string
  | AnswerRemoteSet "string option"
  | AnswerRemoteFailed
  | AnswerSdpCreated string
  | AnswerSdpFailed
  | OfferSdpCreated string string
  | OfferSdpFailed string

fun step :: "call \<Rightarrow> invocation \<Rightarrow> outcome" where
  "step c (Answer opts) = answer c opts"
| "step c Terminate = terminate c"
| "step c (SendDtmf mk tones d g) = sendDtmf mk c tones d g"
| "step c (InitOutgoing uuid u opts) = initOutgoing c uuid u opts"
| "step c (InitIncoming i from sdp) = initIncoming c i from sdp"
| "step c (HandleEvent m) = handleEvent c m"
| "step c AcceptedRemoteSet = acceptedRemoteSet c"
| "step c AcceptedRemoteFailed = acceptedRemoteFailed c"
| "step c TerminateTimeout = terminateTimeout c"
| "step c (CallRequestDone err) = callRequestDone c err"
| "step c (TerminateRequestDone err) = terminateRequestDone c err"
| "step c (TrickleRequestDone err) = trickleRequestDone c err"
| "step c (AnswerRequestDone err) = answerRequestDone c err"
| "step c (OnIceCandidate cand) = onIceCandidate c cand"
| "step c (OnAddStream s) = onAddStream c s"
| "step c (OnDtmf tone) = onDtmf c tone"
| "step c (AnswerRemoteSet aopts) = answerRemoteSet c aopts"
| "step c AnswerRemoteFailed = answerRemoteFailed c"
| "step c (AnswerSdpCreated sdp) = answerSdpCreated c sdp"
| "step c AnswerSdpFailed = answerSdpFailed c"
| "step c (OfferSdpCreated u sdp) = offerSdpCreated c u sdp"
| "step c (OfferSdpFailed reason) = offerSdpFailed c reason"

text \<open>
  The effects of one invocation as the event loop sees them: an exception that leaves
  the handler is reported and the object keeps the fields it had at the raise.
\<close>

definition observed :: "outcome \<Rightarrow> effect list" where
  "observed r = out r @ (case exn r of Some e \<Rightarrow> [Uncaught e] | None \<Rightarrow> [])"

fun run :: "call \<Rightarrow> invocation list \<Rightarrow> call \<times> effect list" where
  "run c [] = (c, [])"
| "run c (i # is) =
     (let r = step c i; (c', es) = run (st r) is in (c', observed r @ es))"

subsection \<open>What is observed in a run\<close>

definition established_notification :: "effect \<Rightarrow> bool" where
  "established_notification e =
     (case e of Emit_stateChanged _ n _ \<Rightarrow> n = ''established'' | _ \<Rightarrow> False)"

definition terminated_notification :: "effect \<Rightarrow> bool" where
  "terminated_notification e =
     (case e of Emit_stateChanged _ n _ \<Rightarrow> n = ''terminated'' | _ \<Rightarrow> False)"

definition deregistration :: "effect \<Rightarrow> bool" where
  "deregistration e = (case e of Calls_delete _ \<Rightarrow> True | _ \<Rightarrow> False)"

definition terminate_request :: "effect \<Rightarrow> bool" where
  "terminate_request e = (case e of SendRequest (SessionTerminate _) \<Rightarrow> True | _ \<Rightarrow> False)"

definition stream_release :: "effect \<Rightarrow> bool" where
  "stream_release e = (case e of CloseMediaStream _ \<Rightarrow> True | _ \<Rightarrow> False)"

text \<open>
  What may happen between the remote \<^verbatim>\<open>established\<close> event and the moment the
  remote description is applied: any handler but that callback itself and the two
  initialisers, which the account calls once on a new object.
\<close>

definition interim :: "invocation \<Rightarrow> bool" where
  "interim i =
     (case i of
        AcceptedRemoteSet \<Rightarrow> False
      | InitIncoming _ _ _ \<Rightarrow> False
      | InitOutgoing _ _ _ \<Rightarrow> False
      | _ \<Rightarrow> True)"

text \<open>The invocations of the termination protocol started by \<^verbatim>\<open>terminate()\<close>.\<close>

definition terminating :: "invocation \<Rightarrow> bool" where
  "terminating i =
     (case i of
        Terminate \<Rightarrow> True
      | TerminateTimeout \<Rightarrow> True
      | TerminateRequestDone _ \<Rightarrow> True
      | _ \<Rightarrow> False)"

definition finalising :: "invocation \<Rightarrow> bool" where
  "finalising i =
     (case i of
        TerminateTimeout \<Rightarrow> True
      | TerminateRequestDone (Some _) \<Rightarrow> True
      | _ \<Rightarrow> False)"

subsection \<open>Sample sessions\<close>

definition state_message :: "string \<Rightarrow> message" where
  "state_message s = \<lparr>msg_event = ''state'', msg_state = s, msg_sdp = ''v=0'', msg_reason = None\<rparr>"

definition microphone :: mediaStream where
  "microphone = MediaStream ''mic'' [''audio0'']"

definition camera_only :: mediaStream where
  "camera_only = MediaStream ''cam'' []"

definition with_stream :: "mediaStream \<Rightarrow> options" where
  "with_stream s = \<lparr>localStream = Some s, pcConfigOpt = None, offerOptions = None, answerOptions = None\<rparr>"

definition without_stream :: options where
  "without_stream = \<lparr>localStream = None, pcConfigOpt = None, offerOptions = None, answerOptions = None\<rparr>"

definition fresh_call :: call where
  "fresh_call = new_call ''carol@example.com'' None"

definition outgoing_call :: "mediaStream \<Rightarrow> call" where
  "outgoing_call s = st (initOutgoing fresh_call ''uuid-1'' ''alice@example.com'' (with_stream s))"

definition incoming_call :: call where
  "incoming_call = st (initIncoming fresh_call ''s1'' \<lparr>uri = ''bob@x.com'', display_name = None\<rparr> ''v=0'')"

text \<open>
  The browser's \<^verbatim>\<open>createDTMFSender\<close>: a sender for a track, a TypeError for an
  argument that is not a MediaStreamTrack.
\<close>

definition browser_createDTMFSender :: "track jsref \<Rightarrow> error + rtcDTMFSender option" where
  "browser_createDTMFSender t =
     (case t of
        JsObj a \<Rightarrow> Inr (Some (RTCDTMFSender a))
      | _ \<Rightarrow> Inl (TypeError ''parameter 1 is not of type MediaStreamTrack''))"

text \<open>
  An established outgoing call that has sent a tone; the browser has added one remote
  stream to the peer connection.
\<close>

definition remote_audio :: mediaStream where
  "remote_audio = MediaStream ''remote'' [''audio1'']"

definition active_call :: call where
  "active_call =
     (fst (run (outgoing_call microphone)
             [HandleEvent (state_message ''accepted''), AcceptedRemoteSet,
              HandleEvent (state_message ''established''),
              SendDtmf browser_createDTMFSender ''1'' 100 70]))
     \<lparr>pc := Some \<lparr>pcConfiguration = PcConfig [], localStreams = [microphone],
                      remoteStreams = [remote_audio]\<rparr>\<rparr>"

text \<open>
  The fields as they stand while an \<^verbatim>\<open>established\<close> notification is held back on
  an outgoing call.
\<close>

definition deferring :: "call \<Rightarrow> bool" where
  "deferring c \<longleftrightarrow> direction c = Some ''outgoing'' \<and> setup_in_progress c \<and> delay_established c"

section \<open>Basic facts\<close>

lemmas prim = ok_def throw_def andThen_def

lemmas handlers =
  answer_def terminate_def sendDtmf_def create_sender_def first_audio_track_def
  initOutgoing_def initIncoming_def handleEvent_def acceptedRemoteSet_def
  acceptedRemoteFailed_def terminateTimeout_def callRequestDone_def terminateRequestDone_def
  trickleRequestDone_def answerRequestDone_def onIceCandidate_def onAddStream_def onDtmf_def
  answerRemoteSet_def answerRemoteFailed_def answerSdpCreated_def answerSdpFailed_def
  offerSdpCreated_def offerSdpFailed_def initRTCPeerConnection_def pc_addStream_def
  pc_setRemoteDescription_def closeRTCPeerConnection_def localTerminate_def sendCall_def
  sendTerminate_def sendTrickle_def sendAnswer_def show_state_def observed_def

lemma incoming_call_eq:
  "incoming_call =
     \<lparr>account_id = ''carol@example.com'', cid = Some ''s1'', direction = Some ''incoming'',
      pc = None, state = Some ''incoming'', terminated = False, incomingSdp = Some ''v=0'',
      localIdentity = Identity ''carol@example.com'' None,
      remoteIdentity = Some (Identity ''bob@x.com'' None), dtmfSender = None,
      delay_established = False, setup_in_progress = False\<rparr>"
  by (simp add: incoming_call_def initIncoming_def fresh_call_def new_call_def ok_def)

lemma outgoing_call_eq:
  "outgoing_call s =
     \<lparr>account_id = ''carol@example.com'', cid = Some ''uuid-1'', direction = Some ''outgoing'',
      pc = Some \<lparr>pcConfiguration = PcConfig [], localStreams = [s], remoteStreams = []\<rparr>,
      state = None, terminated = False, incomingSdp = None,
      localIdentity = Identity ''carol@example.com'' None,
      remoteIdentity = Some (Identity ''alice@example.com'' None), dtmfSender = None,
      delay_established = False, setup_in_progress = False\<rparr>"
  by (simp add: outgoing_call_def initOutgoing_def fresh_call_def new_call_def with_stream_def
      initRTCPeerConnection_def pc_addStream_def prim Let_def)

lemma active_call_eq:
  "active_call =
     \<lparr>account_id = ''carol@example.com'', cid = Some ''uuid-1'', direction = Some ''outgoing'',
      pc = Some \<lparr>pcConfiguration = PcConfig [], localStreams = [microphone],
                    remoteStreams = [remote_audio]\<rparr>,
      state = Some ''established'', terminated = False, incomingSdp = None,
      localIdentity = Identity ''carol@example.com'' None,
      remoteIdentity = Some (Identity ''alice@example.com'' None),
      dtmfSender = Some (RTCDTMFSender ''audio0''),
      delay_established = False, setup_in_progress = False\<rparr>"
  by (simp add: active_call_def outgoing_call_eq state_message_def microphone_def
      browser_createDTMFSender_def handlers prim Let_def)

lemma run_Cons:
  "fst (run c (i # is)) = fst (run (st (step c i)) is)"
  "snd (run c (i # is)) = observed (step c i) @ snd (run (st (step c i)) is)"
  by (simp_all add: Let_def split: prod.splits)

lemma terminated_upd_same: "terminated c \<Longrightarrow> c\<lparr>terminated := True\<rparr> = c"
  by (cases c) simp

section \<open>The deferred established notification\<close>

lemma close_quiet:
  "x \<in> set (out (closeRTCPeerConnection c)) \<Longrightarrow> \<not> established_notification x"
  by (auto simp: closeRTCPeerConnection_def ok_def Let_def established_notification_def
      split: option.splits if_splits)

lemma close_deferring: "deferring (st (closeRTCPeerConnection c)) = deferring c"
  by (simp add: closeRTCPeerConnection_def ok_def Let_def deferring_def split: option.splits)

lemma close_exn: "exn (closeRTCPeerConnection c) = None"
  by (simp add: closeRTCPeerConnection_def ok_def Let_def split: option.splits)

lemma localTerminate_deferring:
  "deferring (st (localTerminate c e)) = deferring c"
  "x \<in> set (observed (localTerminate c e)) \<Longrightarrow> \<not> established_notification x"
  using close_quiet[of _ "c\<lparr>terminated := True\<rparr>"] close_deferring[of "c\<lparr>terminated := True\<rparr>"]
  by (auto simp: localTerminate_def prim Let_def observed_def close_exn deferring_def
      established_notification_def split: if_splits)

lemma terminate_deferring:
  "deferring (st (terminate c)) = deferring c"
  "x \<in> set (observed (terminate c)) \<Longrightarrow> \<not> established_notification x"
  by (auto simp: terminate_def sendTerminate_def prim observed_def established_notification_def
      split: if_splits)

lemma handleEvent_deferring:
  assumes "deferring c"
  shows "deferring (st (handleEvent c m))"
    and "x \<in> set (observed (handleEvent c m)) \<Longrightarrow> \<not> established_notification x"
  using assms close_quiet[of x "c\<lparr>state := Some ''terminated'', terminated := True\<rparr>"]
     close_deferring[of "c\<lparr>state := Some ''terminated'', terminated := True\<rparr>"]
  by (auto simp: handleEvent_def prim Let_def observed_def close_exn deferring_def
      pc_setRemoteDescription_def established_notification_def split: if_splits option.splits)

lemma sendDtmf_deferring:
  "deferring (st (sendDtmf mk c t d g)) = deferring c"
  "x \<in> set (observed (sendDtmf mk c t d g)) \<Longrightarrow> \<not> established_notification x"
  by (auto simp: sendDtmf_def create_sender_def prim Let_def observed_def deferring_def
      established_notification_def split: if_splits option.splits sum.splits)

lemma answer_deferring:
  "deferring (st (answer c opts)) = deferring c"
  "x \<in> set (observed (answer c opts)) \<Longrightarrow> \<not> established_notification x"
  by (auto simp: answer_def initRTCPeerConnection_def pc_addStream_def pc_setRemoteDescription_def
      prim Let_def observed_def deferring_def
      established_notification_def split: if_splits option.splits)

lemma terminateTimeout_deferring:
  "deferring (st (terminateTimeout c)) = deferring c"
  "x \<in> set (observed (terminateTimeout c)) \<Longrightarrow> \<not> established_notification x"
  using localTerminate_deferring(1)[of c "''200 OK''"]
    localTerminate_deferring(2)[of x c "''200 OK''"]
  by (auto simp: terminateTimeout_def prim observed_def deferring_def
      split: option.splits if_splits)

lemma requestDone_deferring:
  "deferring (st (callRequestDone c err)) = deferring c"
  "x \<in> set (observed (callRequestDone c err)) \<Longrightarrow> \<not> established_notification x"
  "deferring (st (terminateRequestDone c err)) = deferring c"
  "x \<in> set (observed (terminateRequestDone c err)) \<Longrightarrow> \<not> established_notification x"
  "deferring (st (trickleRequestDone c err)) = deferring c"
  "x \<in> set (observed (trickleRequestDone c err)) \<Longrightarrow> \<not> established_notification x"
  "deferring (st (answerRequestDone c err)) = deferring c"
  "x \<in> set (observed (answerRequestDone c err)) \<Longrightarrow> \<not> established_notification x"
  by (cases err; simp add: callRequestDone_def terminateRequestDone_def trickleRequestDone_def
        answerRequestDone_def localTerminate_deferring terminate_deferring ok_def observed_def)+

lemma listeners_deferring:
  "st (onIceCandidate c cand) = c"
  "x \<in> set (observed (onIceCandidate c cand)) \<Longrightarrow> \<not> established_notification x"
  "st (onAddStream c s) = c"
  "x \<in> set (observed (onAddStream c s)) \<Longrightarrow> \<not> established_notification x"
  "st (onDtmf c tone) = c"
  "x \<in> set (observed (onDtmf c tone)) \<Longrightarrow> \<not> established_notification x"
  "st (answerRemoteSet c aopts) = c"
  "x \<in> set (observed (answerRemoteSet c aopts)) \<Longrightarrow> \<not> established_notification x"
  "st (answerSdpCreated c sdp) = c"
  "x \<in> set (observed (answerSdpCreated c sdp)) \<Longrightarrow> \<not> established_notification x"
  "st (offerSdpCreated c u sdp) = c"
  "x \<in> set (observed (offerSdpCreated c u sdp)) \<Longrightarrow> \<not> established_notification x"
  by (auto simp: onIceCandidate_def sendTrickle_def onAddStream_def onDtmf_def answerRemoteSet_def
      answerSdpCreated_def sendAnswer_def offerSdpCreated_def sendCall_def ok_def observed_def
      established_notification_def)

text \<open>
  While the flags stand, no handler but the callback emits the notification or touches
  the flags.
\<close>

lemma step_deferring:
  assumes "deferring c" "interim i"
  shows "deferring (st (step c i))"
    and "x \<in> set (observed (step c i)) \<Longrightarrow> \<not> established_notification x"
  using assms
  by (cases i; simp add: interim_def handleEvent_deferring terminate_deferring
        localTerminate_deferring sendDtmf_deferring answer_deferring acceptedRemoteFailed_def
        terminateTimeout_deferring requestDone_deferring listeners_deferring
        answerRemoteFailed_def answerSdpFailed_def offerSdpFailed_def)+

lemma run_deferring:
  assumes "deferring c" "\<forall>i\<in>set is. interim i"
  shows "deferring (fst (run c is)) \<and> (\<forall>x\<in>set (snd (run c is)). \<not> established_notification x)"
  using assms
proof (induction "is" arbitrary: c)
  case Nil
  then show ?case by simp
next
  case (Cons i "is")
  have d: "deferring (st (step c i))"
    and q: "\<forall>x\<in>set (observed (step c i)). \<not> established_notification x"
    using Cons.prems step_deferring[of c i] by auto
  from Cons.IH[OF d] Cons.prems q show ?case
    by (auto simp: Let_def split: prod.splits)
qed

lemma accepted_then_established:
  assumes "direction c = Some ''outgoing''" "pc c \<noteq> None"
    "msg_event a = ''state''" "msg_state a = ''accepted''"
    "msg_event e = ''state''" "msg_state e = ''established''"
  shows "exn (handleEvent c a) = None"
    "out (handleEvent c a) = [Emit_stateChanged (state c) ''accepted'' NoData,
                              Pc_setRemoteDescription ''answer'' (MungedSdp (msg_sdp a))]"
    "setup_in_progress (st (handleEvent c a))"
    "handleEvent (st (handleEvent c a)) e =
       ok (st (handleEvent c a)\<lparr>state := Some ''established'', delay_established := True\<rparr>) []"
    "deferring (st (handleEvent (st (handleEvent c a)) e))"
  using assms
  by (auto simp: handleEvent_def prim Let_def pc_setRemoteDescription_def deferring_def)

text \<open>
  C1. An outgoing session with a peer connection receives \<^verbatim>\<open>accepted\<close>, which starts
  the application of the remote description, and then \<^verbatim>\<open>established\<close>. Whatever
  handlers run before the application resolves (\<open>is\<close>), no established notification
  is emitted up to that point. When the success callback runs, it emits the notification
  once if the \<^verbatim>\<open>_terminated\<close> flag is not set and nothing if it is set, and a further
  run of the callback emits nothing.
\<close>

theorem deferred_established:
  assumes "direction c = Some ''outgoing''" "pc c \<noteq> None"
    "msg_event a = ''state''" "msg_state a = ''accepted''"
    "msg_event e = ''state''" "msg_state e = ''established''"
    "\<forall>i\<in>set is. interim i"
  shows "Pc_setRemoteDescription ''answer'' (MungedSdp (msg_sdp a))
           \<in> set (snd (run c (HandleEvent a # HandleEvent e # is))) \<and>
         (\<forall>x\<in>set (snd (run c (HandleEvent a # HandleEvent e # is))).
            \<not> established_notification x) \<and>
         observed (acceptedRemoteSet (fst (run c (HandleEvent a # HandleEvent e # is)))) =
           (if terminated (fst (run c (HandleEvent a # HandleEvent e # is))) then []
            else [Emit_stateChanged (state (fst (run c (HandleEvent a # HandleEvent e # is))))
                    ''established'' NoData]) \<and>
         observed (acceptedRemoteSet
           (st (acceptedRemoteSet (fst (run c (HandleEvent a # HandleEvent e # is)))))) = []"
proof -
  let ?c2 = "st (handleEvent (st (handleEvent c a)) e)"
  let ?c' = "fst (run c (HandleEvent a # HandleEvent e # is))"
  let ?tr = "snd (run c (HandleEvent a # HandleEvent e # is))"
  note ae = accepted_then_established[OF assms(1-6)]
  have d: "deferring (fst (run ?c2 is))"
    and q: "\<forall>x\<in>set (snd (run ?c2 is)). \<not> established_notification x"
    using run_deferring[OF ae(5) assms(7)] by auto
  have tr: "?tr = out (handleEvent c a) @ snd (run ?c2 is)" and c': "?c' = fst (run ?c2 is)"
    using ae by (auto simp: run_Cons observed_def ok_def simp del: run.simps)
  have 1: "Pc_setRemoteDescription ''answer'' (MungedSdp (msg_sdp a)) \<in> set ?tr"
    by (simp add: tr ae(2) del: run.simps)
  have 2: "\<forall>x\<in>set ?tr. \<not> established_notification x"
    unfolding tr using q by (auto simp: ae(2) established_notification_def simp del: run.simps)
  have 3: "observed (acceptedRemoteSet ?c') =
           (if terminated ?c' then [] else [Emit_stateChanged (state ?c') ''established'' NoData])"
    unfolding c' using d
    by (simp add: acceptedRemoteSet_def deferring_def observed_def ok_def Let_def del: run.simps)
  have 4: "observed (acceptedRemoteSet (st (acceptedRemoteSet ?c'))) = []"
    unfolding c' using d
    by (simp add: acceptedRemoteSet_def deferring_def observed_def ok_def Let_def del: run.simps)
  show ?thesis using 1 2 3 4 by blast
qed

theorem deferred_established_witness:
  "direction (outgoing_call microphone) = Some ''outgoing'' \<and>
   pc (outgoing_call microphone) \<noteq> None \<and>
   list_all interim [OnIceCandidate (Some ''candidate:1'')] \<and>
   filter established_notification (snd (run (outgoing_call microphone)
        [HandleEvent (state_message ''accepted''), HandleEvent (state_message ''established''),
         OnIceCandidate (Some ''candidate:1'')])) = [] \<and>
   observed (acceptedRemoteSet (fst (run (outgoing_call microphone)
        [HandleEvent (state_message ''accepted''), HandleEvent (state_message ''established''),
         OnIceCandidate (Some ''candidate:1'')]))) =
     [Emit_stateChanged (Some ''established'') ''established'' NoData]"
proof -
  let ?is = "[HandleEvent (state_message ''accepted''), HandleEvent (state_message ''established''),
         OnIceCandidate (Some ''candidate:1'')]"
  have h: "direction (outgoing_call microphone) = Some ''outgoing''"
    "pc (outgoing_call microphone) \<noteq> None"
    "msg_event (state_message ''accepted'') = ''state''"
    "msg_state (state_message ''accepted'') = ''accepted''"
    "msg_event (state_message ''established'') = ''state''"
    "msg_state (state_message ''established'') = ''established''"
    "\<forall>i\<in>set [OnIceCandidate (Some ''candidate:1'')]. interim i"
    by (simp_all add: outgoing_call_eq state_message_def interim_def)
  have t: "\<not> terminated (fst (run (outgoing_call microphone) ?is))"
    "state (fst (run (outgoing_call microphone) ?is)) = Some ''established''"
    by (simp_all add: outgoing_call_eq state_message_def handlers prim Let_def)
  show ?thesis
    using deferred_established[OF h] h(1,2,7) t
    by (simp add: filter_empty_conv del: run.simps)
qed

text \<open>
  The same exchange with a remote \<^verbatim>\<open>terminated\<close> event before the application
  resolves: the callback then emits nothing.
\<close>

lemma dropped_after_remote_terminated:
  "snd (run (outgoing_call microphone)
        [HandleEvent (state_message ''accepted''), HandleEvent (state_message ''established''),
         HandleEvent (state_message ''terminated''), AcceptedRemoteSet]) =
     [Emit_stateChanged None ''accepted'' NoData,
      Pc_setRemoteDescription ''answer'' (MungedSdp ''v=0''),
      Emit_stateChanged (Some ''established'') ''terminated'' (Reason None),
      Calls_delete (Some ''uuid-1''),
      CloseMediaStream microphone, Pc_close]"
  by (simp add: outgoing_call_eq state_message_def handlers prim Let_def)

section \<open>Immediate established notification\<close>

text \<open>
  C2. On an outgoing session with no application of a remote description in flight
  (\<^verbatim>\<open>_setup_in_progress\<close> false), a remote \<^verbatim>\<open>established\<close> state event emits the
  stateChanged notification in the same handler run; nothing is deferred, the only
  field that changes is the state.
\<close>

theorem established_immediate:
  assumes "direction c = Some ''outgoing''" "\<not> setup_in_progress c"
    "msg_event m = ''state''" "msg_state m = ''established''"
  shows "handleEvent c m =
           ok (c\<lparr>state := Some ''established''\<rparr>)
              [Emit_stateChanged (state c) ''established'' NoData]"
  using assms by (simp add: handleEvent_def Let_def)

theorem established_immediate_witness:
  "direction (fst (run (outgoing_call microphone)
       [HandleEvent (state_message ''accepted''), AcceptedRemoteSet])) = Some ''outgoing'' \<and>
   \<not> setup_in_progress (fst (run (outgoing_call microphone)
       [HandleEvent (state_message ''accepted''), AcceptedRemoteSet])) \<and>
   out (handleEvent (fst (run (outgoing_call microphone)
       [HandleEvent (state_message ''accepted''), AcceptedRemoteSet]))
       (state_message ''established'')) =
     [Emit_stateChanged (Some ''accepted'') ''established'' NoData]"
proof -
  let ?c = "fst (run (outgoing_call microphone)
       [HandleEvent (state_message ''accepted''), AcceptedRemoteSet])"
  have h: "direction ?c = Some ''outgoing''" "\<not> setup_in_progress ?c"
    "msg_event (state_message ''established'') = ''state''"
    "msg_state (state_message ''established'') = ''established''"
    by (simp_all add: outgoing_call_eq state_message_def handlers prim Let_def)
  have s: "state ?c = Some ''accepted''"
    by (simp add: outgoing_call_eq state_message_def handlers prim Let_def)
  show ?thesis
    using established_immediate[OF h] h(1,2) s by (simp add: ok_def del: run.simps)
qed

section \<open>Termination\<close>

lemma close_counts:
  "filter deregistration (out (closeRTCPeerConnection c)) = []"
  "filter terminated_notification (out (closeRTCPeerConnection c)) = []"
  "length (filter (\<lambda>x. x = Pc_close) (out (closeRTCPeerConnection c))) \<le> 1"
  "terminated (st (closeRTCPeerConnection c)) = terminated c"
  by (auto simp: closeRTCPeerConnection_def ok_def Let_def deregistration_def
      terminated_notification_def filter_map comp_def split: option.splits)

lemma close_requests:
  "filter terminate_request (out (closeRTCPeerConnection c)) = []"
  by (auto simp: closeRTCPeerConnection_def ok_def Let_def terminate_request_def
      filter_map comp_def split: option.splits)

lemma localTerminate_counts:
  assumes "\<not> terminated c"
  shows "terminated (st (localTerminate c e))" "exn (localTerminate c e) = None"
    "length (filter deregistration (out (localTerminate c e))) = 1"
    "length (filter terminated_notification (out (localTerminate c e))) = 1"
    "length (filter (\<lambda>x. x = Pc_close) (out (localTerminate c e))) \<le> 1"
  using assms close_counts[of "c\<lparr>terminated := True\<rparr>"] close_exn[of "c\<lparr>terminated := True\<rparr>"]
  by (simp_all add: localTerminate_def prim Let_def deregistration_def terminated_notification_def)

text \<open>
  \<^verbatim>\<open>_localTerminate\<close> on a session that is not terminated, written out: the fields
  afterwards and the calls made, in order.
\<close>

lemma localTerminate_explicit:
  assumes "\<not> terminated c"
  shows "localTerminate c r =
        ok (c\<lparr>terminated := True, pc := None,
              dtmfSender := (if pc c = None then dtmfSender c else None)\<rparr>)
           (Calls_delete (cid c) #
            (case pc c of
               None \<Rightarrow> []
             | Some p \<Rightarrow>
                 map CloseMediaStream (localStreams p) @ map CloseMediaStream (remoteStreams p) @
                 Pc_close # (if dtmfSender c = None then [] else [Dtmf_removeEventListener])) @
            [Emit_stateChanged (state c) ''terminated'' (Reason (Some r))])"
  using assms
  by (cases c) (auto simp: localTerminate_def closeRTCPeerConnection_def prim Let_def
      split: option.splits)

lemma terminateTimeout_explicit:
  assumes "\<not> terminated c"
  shows "terminateTimeout c =
        ok (c\<lparr>terminated := True, pc := None,
              dtmfSender := (if pc c = None then dtmfSender c else None)\<rparr>)
           (Calls_delete (cid c) #
            (case pc c of
               None \<Rightarrow> []
             | Some p \<Rightarrow>
                 map CloseMediaStream (localStreams p) @ map CloseMediaStream (remoteStreams p) @
                 Pc_close # (if dtmfSender c = None then [] else [Dtmf_removeEventListener])) @
            [Emit_stateChanged (state c) ''terminated'' (Reason (Some ''200 OK''))])"
  using assms
  by (simp add: terminateTimeout_def localTerminate_explicit prim)

text \<open>Once the flag is set, the handlers of the termination protocol do nothing.\<close>

lemma step_terminated:
  assumes "terminating i" "terminated c"
  shows "step c i = ok c []"
  using assms
  by (cases i; simp add: terminating_def terminate_def terminateTimeout_def terminateRequestDone_def
      localTerminate_def prim terminated_upd_same split: option.splits)

lemma step_finalising:
  assumes "finalising i" "\<not> terminated c"
  shows "terminated (st (step c i))" "exn (step c i) = None"
    "length (filter deregistration (out (step c i))) = 1"
    "length (filter terminated_notification (out (step c i))) = 1"
    "length (filter (\<lambda>x. x = Pc_close) (out (step c i))) \<le> 1"
  using assms localTerminate_counts[OF assms(2)]
  by (cases i; simp add: finalising_def terminateTimeout_def terminateRequestDone_def prim
      split: option.splits)+

lemma step_requesting:
  assumes "terminating i" "\<not> finalising i" "\<not> terminated c"
  shows "step c i =
           ok c (if i = Terminate then [SendRequest (SessionTerminate (cid c)), SetTimeout 150]
                 else [])"
  using assms
  by (cases i; simp add: terminating_def finalising_def terminate_def sendTerminate_def
      terminateRequestDone_def split: option.splits)

lemma run_terminated:
  assumes "\<forall>i\<in>set is. terminating i" "terminated c"
  shows "run c is = (c, [])"
  using assms by (induction "is") (simp_all add: step_terminated ok_def observed_def)

lemma run_terminating_count:
  assumes "\<forall>i\<in>set is. terminating i"
    and "\<And>r. \<not> P (SendRequest r)" "\<And>n. \<not> P (SetTimeout n)"
    and "\<And>c i. finalising i \<Longrightarrow> \<not> terminated c \<Longrightarrow> length (filter P (out (step c i))) \<le> 1"
  shows "length (filter P (snd (run c is))) \<le> 1"
  using assms(1)
proof (induction "is" arbitrary: c)
  case Nil
  then show ?case by simp
next
  case (Cons i "is")
  then have ti: "terminating i" and tis: "\<forall>i\<in>set is. terminating i" by simp_all
  show ?case
  proof (cases "terminated c")
    case True
    then show ?thesis using run_terminated[OF Cons.prems True] by simp
  next
    case nt: False
    show ?thesis
    proof (cases "finalising i")
      case True
      have "run (st (step c i)) is = (st (step c i), [])"
        using run_terminated[OF tis] step_finalising(1)[OF True nt] by simp
      then show ?thesis
        using assms(4)[OF True nt] step_finalising(2)[OF True nt]
        by (simp add: run_Cons observed_def del: run.simps)
    next
      case False
      show ?thesis
        using Cons.IH[OF tis, of c] step_requesting[OF ti False nt] assms(2,3)
        by (simp add: run_Cons observed_def ok_def del: run.simps)
    qed
  qed
qed

lemma run_terminating_exact:
  assumes "\<forall>i\<in>set is. terminating i"
    and "\<And>r. \<not> P (SendRequest r)" "\<And>n. \<not> P (SetTimeout n)"
    and "\<And>c i. finalising i \<Longrightarrow> \<not> terminated c \<Longrightarrow> length (filter P (out (step c i))) = 1"
  shows "length (filter P (snd (run c is))) =
           (if \<not> terminated c \<and> (\<exists>i\<in>set is. finalising i) then 1 else 0)"
  using assms(1)
proof (induction "is" arbitrary: c)
  case Nil
  then show ?case by simp
next
  case (Cons i "is")
  then have ti: "terminating i" and tis: "\<forall>i\<in>set is. terminating i" by simp_all
  show ?case
  proof (cases "terminated c")
    case True
    then show ?thesis using run_terminated[OF Cons.prems True] by simp
  next
    case nt: False
    show ?thesis
    proof (cases "finalising i")
      case True
      have "run (st (step c i)) is = (st (step c i), [])"
        using run_terminated[OF tis] step_finalising(1)[OF True nt] by simp
      then show ?thesis
        using assms(4)[OF True nt] step_finalising(2)[OF True nt] nt True
        by (simp add: run_Cons observed_def del: run.simps)
    next
      case False
      show ?thesis
        using Cons.IH[OF tis, of c] step_requesting[OF ti False nt] assms(2,3) nt False
        by (simp add: run_Cons observed_def ok_def del: run.simps)
    qed
  qed
qed

lemma step_finalising_filters:
  assumes "finalising i" "\<not> terminated c"
  shows "filter deregistration (out (step c i)) = [Calls_delete (cid c)]"
    "filter (\<lambda>x. x = Pc_close) (out (step c i)) = (if pc c \<noteq> None then [Pc_close] else [])"
    "filter stream_release (out (step c i)) =
       map CloseMediaStream (getLocalStreams c @ getRemoteStreams c)"
    "pc (st (step c i)) = None"
  using assms
  by (cases i; auto simp: finalising_def terminateTimeout_explicit terminateRequestDone_def
      localTerminate_explicit ok_def deregistration_def stream_release_def filter_map comp_def
      getLocalStreams_def getRemoteStreams_def split: option.splits)+

lemma run_terminating_filter:
  assumes "\<forall>i\<in>set is. terminating i"
    and "\<And>r. \<not> P (SendRequest r)" "\<And>n. \<not> P (SetTimeout n)"
    and "\<And>i. finalising i \<Longrightarrow> \<not> terminated c \<Longrightarrow> filter P (out (step c i)) = F"
  shows "filter P (snd (run c is)) =
           (if \<not> terminated c \<and> (\<exists>i\<in>set is. finalising i) then F else [])"
  using assms(1)
proof (induction "is")
  case Nil
  then show ?case by simp
next
  case (Cons i "is")
  then have ti: "terminating i" and tis: "\<forall>i\<in>set is. terminating i" by simp_all
  show ?case
  proof (cases "terminated c")
    case True
    then show ?thesis using run_terminated[OF Cons.prems True] by simp
  next
    case nt: False
    show ?thesis
    proof (cases "finalising i")
      case True
      have "run (st (step c i)) is = (st (step c i), [])"
        using run_terminated[OF tis] step_finalising(1)[OF True nt] by simp
      then show ?thesis
        using assms(4)[OF True nt] step_finalising(2)[OF True nt] nt True
        by (simp add: run_Cons observed_def del: run.simps)
    next
      case False
      show ?thesis
        using Cons.IH[OF tis] step_requesting[OF ti False nt] assms(2,3) nt False
        by (simp add: run_Cons observed_def ok_def del: run.simps)
    qed
  qed
qed

lemma run_terminating_final:
  assumes "\<forall>i\<in>set is. terminating i" "\<not> terminated c" "\<exists>i\<in>set is. finalising i"
  shows "terminated (fst (run c is)) \<and> pc (fst (run c is)) = None"
  using assms(1,3)
proof (induction "is")
  case Nil
  then show ?case by simp
next
  case (Cons i "is")
  then have ti: "terminating i" and tis: "\<forall>i\<in>set is. terminating i" by simp_all
  show ?case
  proof (cases "finalising i")
    case True
    have "run (st (step c i)) is = (st (step c i), [])"
      using run_terminated[OF tis] step_finalising(1)[OF True assms(2)] by simp
    then show ?thesis
      using step_finalising(1)[OF True assms(2)] step_finalising_filters(4)[OF True assms(2)]
      by (simp add: run_Cons del: run.simps)
  next
    case False
    then have "\<exists>i\<in>set is. finalising i" using Cons.prems(2) by auto
    then show ?thesis
      using Cons.IH[OF tis] step_requesting[OF ti False assms(2)]
      by (simp add: run_Cons ok_def del: run.simps)
  qed
qed

text \<open>
  The requests sent are those of the \<^verbatim>\<open>terminate()\<close> calls made before the first
  invocation that sets the flag.
\<close>

lemma run_terminating_requests:
  assumes "\<forall>i\<in>set is. terminating i"
  shows "length (filter terminate_request (snd (run c is))) =
           (if terminated c then 0
            else length (filter (\<lambda>i. i = Terminate) (takeWhile (\<lambda>i. \<not> finalising i) is)))"
  using assms
proof (induction "is" arbitrary: c)
  case Nil
  then show ?case by simp
next
  case (Cons i "is")
  then have ti: "terminating i" and tis: "\<forall>i\<in>set is. terminating i" by simp_all
  show ?case
  proof (cases "terminated c")
    case True
    then show ?thesis using run_terminated[OF Cons.prems True] by simp
  next
    case nt: False
    show ?thesis
    proof (cases "finalising i")
      case True
      have q: "run (st (step c i)) is = (st (step c i), [])"
        using run_terminated[OF tis] step_finalising(1)[OF True nt] by simp
      have "filter terminate_request (out (step c i)) = []"
        using True nt close_requests[of "c\<lparr>terminated := True\<rparr>"]
        by (cases i; simp add: finalising_def terminateTimeout_def terminateRequestDone_def
            localTerminate_def prim Let_def terminate_request_def close_exn split: option.splits)
      then show ?thesis
        using q step_finalising(2)[OF True nt] nt True
        by (simp add: run_Cons observed_def del: run.simps)
    next
      case False
      show ?thesis
        using Cons.IH[OF tis, of c] step_requesting[OF ti False nt] nt False
        by (simp add: run_Cons observed_def ok_def terminate_request_def del: run.simps)
    qed
  qed
qed

text \<open>
  C3, as stated, fails: \<^verbatim>\<open>terminate()\<close> does not set \<^verbatim>\<open>_terminated\<close>, so a second
  call made before the timer fires sends a second session-terminate request and arms a
  second timer.
\<close>

theorem terminate_twice_counterexample:
  "\<not> terminated (st (terminate incoming_call)) \<and>
   snd (run incoming_call [Terminate, Terminate]) =
     [SendRequest (SessionTerminate (Some ''s1'')), SetTimeout 150,
      SendRequest (SessionTerminate (Some ''s1'')), SetTimeout 150] \<and>
   length (filter terminate_request (snd (run incoming_call [Terminate, Terminate]))) = 2"
  by (simp add: incoming_call_eq handlers prim Let_def terminate_request_def)

text \<open>
  C3, amended. A call of \<^verbatim>\<open>terminate()\<close> made while \<^verbatim>\<open>_terminated\<close> is set is a
  no-op. A call made while it is not set sends one session-terminate request and arms
  one 150 ms timer, and does not set the flag. In every sequence of \<^verbatim>\<open>terminate()\<close>
  calls, timer firings and callbacks of the terminate request, the requests sent are
  those of the calls made before the first timer firing or failed request. If the session
  was not terminated before and a timer fires or a request fails, the teardown happens
  exactly once: one deregistration, one terminated notification, the flag set, and, when
  the session has a peer connection, each of its local and remote streams released once,
  the connection closed once and \<^verbatim>\<open>_pc\<close> set to \<^verbatim>\<open>null\<close>. Otherwise there is no
  teardown.
\<close>

theorem terminate_guarded_by_flag:
  "(terminated c \<longrightarrow> terminate c = ok c []) \<and>
   (\<not> terminated c \<longrightarrow>
      terminate c = ok c [SendRequest (SessionTerminate (cid c)), SetTimeout 150]) \<and>
   ((\<forall>i\<in>set is. terminating i) \<longrightarrow>
      length (filter terminate_request (snd (run c is))) =
        (if terminated c then 0
         else length (filter (\<lambda>i. i = Terminate) (takeWhile (\<lambda>i. \<not> finalising i) is))) \<and>
      filter deregistration (snd (run c is)) =
        (if \<not> terminated c \<and> (\<exists>i\<in>set is. finalising i) then [Calls_delete (cid c)] else []) \<and>
      length (filter terminated_notification (snd (run c is))) =
        (if \<not> terminated c \<and> (\<exists>i\<in>set is. finalising i) then 1 else 0) \<and>
      filter (\<lambda>x. x = Pc_close) (snd (run c is)) =
        (if \<not> terminated c \<and> (\<exists>i\<in>set is. finalising i) \<and> pc c \<noteq> None then [Pc_close]
         else []) \<and>
      filter stream_release (snd (run c is)) =
        (if \<not> terminated c \<and> (\<exists>i\<in>set is. finalising i)
         then map CloseMediaStream (getLocalStreams c @ getRemoteStreams c) else []) \<and>
      (\<not> terminated c \<and> (\<exists>i\<in>set is. finalising i) \<longrightarrow>
         terminated (fst (run c is)) \<and> pc (fst (run c is)) = None))"
proof -
  have a: "terminated c \<longrightarrow> terminate c = ok c []"
    and b: "\<not> terminated c \<longrightarrow>
      terminate c = ok c [SendRequest (SessionTerminate (cid c)), SetTimeout 150]"
    by (simp_all add: terminate_def sendTerminate_def)
  have c: "filter deregistration (snd (run c is)) =
        (if \<not> terminated c \<and> (\<exists>i\<in>set is. finalising i) then [Calls_delete (cid c)] else [])"
    if "\<forall>i\<in>set is. terminating i"
    by (rule run_terminating_filter[OF that])
       (simp_all add: deregistration_def step_finalising_filters)
  have d: "length (filter terminated_notification (snd (run c is))) =
        (if \<not> terminated c \<and> (\<exists>i\<in>set is. finalising i) then 1 else 0)"
    if "\<forall>i\<in>set is. terminating i"
    by (rule run_terminating_exact[OF that])
       (simp_all add: terminated_notification_def step_finalising)
  have e0: "filter (\<lambda>x. x = Pc_close) (snd (run c is)) =
        (if \<not> terminated c \<and> (\<exists>i\<in>set is. finalising i)
         then (if pc c \<noteq> None then [Pc_close] else []) else [])"
    if "\<forall>i\<in>set is. terminating i"
    by (rule run_terminating_filter[OF that]) (simp_all add: step_finalising_filters)
  have e: "filter (\<lambda>x. x = Pc_close) (snd (run c is)) =
        (if \<not> terminated c \<and> (\<exists>i\<in>set is. finalising i) \<and> pc c \<noteq> None then [Pc_close]
         else [])"
    if "\<forall>i\<in>set is. terminating i"
    using e0[OF that] by (simp del: run.simps)
  have f: "filter stream_release (snd (run c is)) =
        (if \<not> terminated c \<and> (\<exists>i\<in>set is. finalising i)
         then map CloseMediaStream (getLocalStreams c @ getRemoteStreams c) else [])"
    if "\<forall>i\<in>set is. terminating i"
    by (rule run_terminating_filter[OF that])
       (simp_all add: stream_release_def step_finalising_filters)
  have g: "terminated (fst (run c is)) \<and> pc (fst (run c is)) = None"
    if "\<forall>i\<in>set is. terminating i" "\<not> terminated c" "\<exists>i\<in>set is. finalising i"
    by (rule run_terminating_final[OF that])
  show ?thesis using a b c d e f g run_terminating_requests[of "is" c] by blast
qed

theorem terminate_guarded_by_flag_witness:
  "terminated (fst (run active_call [Terminate, TerminateTimeout])) \<and>
   terminate (fst (run active_call [Terminate, TerminateTimeout])) =
     ok (fst (run active_call [Terminate, TerminateTimeout])) [] \<and>
   \<not> terminated active_call \<and>
   terminate active_call =
     ok active_call [SendRequest (SessionTerminate (Some ''uuid-1'')), SetTimeout 150] \<and>
   list_all terminating [Terminate, Terminate, TerminateTimeout, TerminateTimeout] \<and>
   length (filter terminate_request
      (snd (run active_call [Terminate, Terminate, TerminateTimeout, TerminateTimeout]))) = 2 \<and>
   filter deregistration
      (snd (run active_call [Terminate, Terminate, TerminateTimeout, TerminateTimeout])) =
     [Calls_delete (Some ''uuid-1'')] \<and>
   length (filter terminated_notification
      (snd (run active_call [Terminate, Terminate, TerminateTimeout, TerminateTimeout]))) = 1 \<and>
   filter (\<lambda>x. x = Pc_close)
      (snd (run active_call [Terminate, Terminate, TerminateTimeout, TerminateTimeout])) =
     [Pc_close] \<and>
   filter stream_release
      (snd (run active_call [Terminate, Terminate, TerminateTimeout, TerminateTimeout])) =
     [CloseMediaStream microphone, CloseMediaStream remote_audio] \<and>
   terminated (fst (run active_call [Terminate, Terminate, TerminateTimeout, TerminateTimeout])) \<and>
   pc (fst (run active_call [Terminate, Terminate, TerminateTimeout, TerminateTimeout])) = None"
proof -
  let ?is = "[Terminate, Terminate, TerminateTimeout, TerminateTimeout]"
  have t: "terminated (fst (run active_call [Terminate, TerminateTimeout]))"
    by (simp add: active_call_eq handlers prim Let_def)
  have n: "\<not> terminated active_call" "cid active_call = Some ''uuid-1''"
    "pc active_call \<noteq> None"
    "getLocalStreams active_call @ getRemoteStreams active_call = [microphone, remote_audio]"
    by (simp_all add: active_call_eq getLocalStreams_def getRemoteStreams_def)
  have ts: "\<forall>i\<in>set ?is. terminating i"
    by (simp add: terminating_def)
  have f: "\<exists>i\<in>set ?is. finalising i"
    by (simp add: finalising_def)
  have tw: "length (filter (\<lambda>i. i = Terminate) (takeWhile (\<lambda>i. \<not> finalising i) ?is)) = 2"
    by (simp add: finalising_def)
  note w1 = terminate_guarded_by_flag[of "fst (run active_call [Terminate, TerminateTimeout])" "[]"]
  note w2 = terminate_guarded_by_flag[of active_call ?is]
  have 1: "terminate (fst (run active_call [Terminate, TerminateTimeout])) =
     ok (fst (run active_call [Terminate, TerminateTimeout])) []"
    using w1 t by blast
  have 2: "terminate active_call =
     ok active_call [SendRequest (SessionTerminate (Some ''uuid-1'')), SetTimeout 150]"
    using w2 n(1,2) by simp
  have 3: "length (filter terminate_request (snd (run active_call ?is))) = 2"
    "filter deregistration (snd (run active_call ?is)) = [Calls_delete (Some ''uuid-1'')]"
    "length (filter terminated_notification (snd (run active_call ?is))) = 1"
    "filter (\<lambda>x. x = Pc_close) (snd (run active_call ?is)) = [Pc_close]"
    "filter stream_release (snd (run active_call ?is)) =
       [CloseMediaStream microphone, CloseMediaStream remote_audio]"
    "terminated (fst (run active_call ?is))"
    "pc (fst (run active_call ?is)) = None"
    using w2 ts f n tw by (simp_all add: finalising_def del: run.simps)
  have l: "list_all terminating ?is"
    by (simp add: terminating_def)
  show ?thesis using t 1 n(1) 2 l 3 by blast
qed

text \<open>
  C4 does not hold of the code. \<^verbatim>\<open>_sendTrickle\<close>, \<^verbatim>\<open>_sendAnswer\<close>,
  \<^verbatim>\<open>_handleEvent\<close> and \<^verbatim>\<open>answer\<close> do not read \<^verbatim>\<open>_terminated\<close>, and
  \<^verbatim>\<open>_localTerminate\<close> leaves \<^verbatim>\<open>_state\<close> as it was. First run: an incoming call is
  rejected with \<^verbatim>\<open>terminate()\<close> and the timer fires, so the flag is set; a later
  \<^verbatim>\<open>answer()\<close> still passes its checks, creates a peer connection, and the answer
  and a candidate are sent. Second run: an outgoing call receives the remote
  \<^verbatim>\<open>terminated\<close> event; a candidate callback that runs afterwards sends a
  session-trickle request, and a later state event changes the state again.
\<close>

theorem terminated_session_still_signals:
  "terminated (fst (run incoming_call [Terminate, TerminateTimeout])) \<and>
   snd (run (fst (run incoming_call [Terminate, TerminateTimeout]))
          [Answer (with_stream microphone), AnswerRemoteSet None,
           AnswerSdpCreated ''v=0 answer'', OnIceCandidate (Some ''candidate:1'')]) =
     [New_RTCPeerConnection (PcConfig []), Pc_addStream microphone,
      Emit_localStreamAdded microphone,
      Pc_setRemoteDescription ''offer'' (StoredSdp (Some ''v=0'')),
      CreateLocalSdp ''answer'' None,
      SendRequest (SessionAnswer (Some ''s1'') ''v=0 answer''),
      SendRequest (SessionTrickle (Some ''s1'') [''candidate:1''])] \<and>
   terminated (fst (run (outgoing_call microphone) [HandleEvent (state_message ''terminated'')])) \<and>
   snd (run (fst (run (outgoing_call microphone) [HandleEvent (state_message ''terminated'')]))
          [OnIceCandidate (Some ''candidate:1''), HandleEvent (state_message ''ringing'')]) =
     [SendRequest (SessionTrickle (Some ''uuid-1'') [''candidate:1'']),
      Emit_stateChanged (Some ''terminated'') ''ringing'' NoData]"
  by (simp add: incoming_call_eq outgoing_call_eq state_message_def with_stream_def
      handlers prim Let_def)

text \<open>
  C5. On a session that is not terminated, \<^verbatim>\<open>terminate()\<close> sends the request, arms
  a timer of 150 ms and changes no field. When the timer callback then runs it
  deregisters the session, releases every local and remote stream of the peer connection,
  closes the connection, removes the listener of the tone sender, sets \<^verbatim>\<open>_pc\<close> and the
  tone sender to \<^verbatim>\<open>null\<close>, emits the terminated notification with the reason
  \<^verbatim>\<open>200 OK\<close> and sets the flag; it does nothing else. On a session whose flag is
  already set the timer callback does nothing; this is the case after a remote
  \<^verbatim>\<open>terminated\<close> state event has been handled in between.
\<close>

theorem terminate_timeout_fallback:
  "(\<not> terminated c \<longrightarrow>
      terminate c = ok c [SendRequest (SessionTerminate (cid c)), SetTimeout 150] \<and>
      terminateTimeout c =
        ok (c\<lparr>terminated := True, pc := None,
              dtmfSender := (if pc c = None then dtmfSender c else None)\<rparr>)
           (Calls_delete (cid c) #
            (case pc c of
               None \<Rightarrow> []
             | Some p \<Rightarrow>
                 map CloseMediaStream (localStreams p) @ map CloseMediaStream (remoteStreams p) @
                 Pc_close # (if dtmfSender c = None then [] else [Dtmf_removeEventListener])) @
            [Emit_stateChanged (state c) ''terminated'' (Reason (Some ''200 OK''))])) \<and>
   (terminated c \<longrightarrow> terminateTimeout c = ok c []) \<and>
   (msg_event m = ''state'' \<and> msg_state m = ''terminated'' \<longrightarrow>
      terminateTimeout (st (handleEvent (st (terminate c)) m)) =
        ok (st (handleEvent (st (terminate c)) m)) [])"
proof -
  have a: "\<not> terminated c \<longrightarrow>
      terminate c = ok c [SendRequest (SessionTerminate (cid c)), SetTimeout 150]"
    by (simp add: terminate_def sendTerminate_def)
  have b: "terminateTimeout c' = ok c' []" if "terminated c'" for c'
    using that by (simp add: terminateTimeout_def prim terminated_upd_same)
  have "terminated (st (handleEvent c' m))"
    if "msg_event m = ''state''" "msg_state m = ''terminated''" for c'
    using that close_counts(4)[of "c'\<lparr>state := Some ''terminated'', terminated := True\<rparr>"]
    by (simp add: handleEvent_def prim Let_def close_exn)
  then show ?thesis using a b terminateTimeout_explicit[of c] by blast
qed

theorem terminate_timeout_fallback_witness:
  "\<not> terminated active_call \<and>
   snd (run active_call [Terminate, TerminateTimeout]) =
     [SendRequest (SessionTerminate (Some ''uuid-1'')), SetTimeout 150,
      Calls_delete (Some ''uuid-1''),
      CloseMediaStream microphone, CloseMediaStream remote_audio, Pc_close,
      Dtmf_removeEventListener,
      Emit_stateChanged (Some ''established'') ''terminated'' (Reason (Some ''200 OK''))] \<and>
   fst (run active_call [Terminate, TerminateTimeout]) =
     active_call\<lparr>terminated := True, pc := None, dtmfSender := None\<rparr> \<and>
   terminated (fst (run active_call [Terminate, HandleEvent (state_message ''terminated'')])) \<and>
   terminateTimeout (fst (run active_call [Terminate, HandleEvent (state_message ''terminated'')])) =
     ok (fst (run active_call [Terminate, HandleEvent (state_message ''terminated'')])) [] \<and>
   msg_event (state_message ''terminated'') = ''state'' \<and>
   msg_state (state_message ''terminated'') = ''terminated'' \<and>
   terminateTimeout (st (handleEvent (st (terminate active_call)) (state_message ''terminated''))) =
     ok (st (handleEvent (st (terminate active_call)) (state_message ''terminated''))) []"
proof -
  let ?t = "fst (run active_call [Terminate, HandleEvent (state_message ''terminated'')])"
  note fallback = terminate_timeout_fallback[of active_call "state_message ''terminated''"]
  have n: "\<not> terminated active_call"
    by (simp add: active_call_eq)
  have v: "cid active_call = Some ''uuid-1''" "state active_call = Some ''established''"
    "pc active_call = Some \<lparr>pcConfiguration = PcConfig [], localStreams = [microphone],
                             remoteStreams = [remote_audio]\<rparr>"
    "dtmfSender active_call = Some (RTCDTMFSender ''audio0'')"
    by (simp_all add: active_call_eq)
  have t: "terminated ?t"
    by (simp add: active_call_eq state_message_def handlers prim Let_def)
  have m: "msg_event (state_message ''terminated'') = ''state''"
    "msg_state (state_message ''terminated'') = ''terminated''"
    by (simp_all add: state_message_def)
  have a: "terminate active_call =
             ok active_call [SendRequest (SessionTerminate (Some ''uuid-1'')), SetTimeout 150]"
    "terminateTimeout active_call =
        ok (active_call\<lparr>terminated := True, pc := None, dtmfSender := None\<rparr>)
           [Calls_delete (Some ''uuid-1''),
            CloseMediaStream microphone, CloseMediaStream remote_audio, Pc_close,
            Dtmf_removeEventListener,
            Emit_stateChanged (Some ''established'') ''terminated'' (Reason (Some ''200 OK''))]"
    using fallback n v by simp_all
  have r: "snd (run active_call [Terminate, TerminateTimeout]) =
     [SendRequest (SessionTerminate (Some ''uuid-1'')), SetTimeout 150,
      Calls_delete (Some ''uuid-1''),
      CloseMediaStream microphone, CloseMediaStream remote_audio, Pc_close,
      Dtmf_removeEventListener,
      Emit_stateChanged (Some ''established'') ''terminated'' (Reason (Some ''200 OK''))]"
    "fst (run active_call [Terminate, TerminateTimeout]) =
     active_call\<lparr>terminated := True, pc := None, dtmfSender := None\<rparr>"
    by (simp_all add: run_Cons observed_def a ok_def del: run.simps(2))
  have q: "terminateTimeout ?t = ok ?t []"
    using terminate_timeout_fallback[of ?t "state_message ''terminated''"] t by blast
  have w: "terminateTimeout
             (st (handleEvent (st (terminate active_call)) (state_message ''terminated''))) =
           ok (st (handleEvent (st (terminate active_call)) (state_message ''terminated''))) []"
    using fallback m by blast
  show ?thesis using n r t q m w by blast
qed

section \<open>Preconditions\<close>

text \<open>
  C6. \<^verbatim>\<open>_initOutgoing\<close> with a destination that has no \<^verbatim>\<open>@\<close>, or without a local
  stream, raises at once: the object is unchanged (no id, direction or remote identity
  is set, no peer connection is created) and no call is made on a collaborator, so no
  request is sent.
\<close>

theorem initOutgoing_fails_fast:
  assumes "CHR ''@'' \<notin> set u \<or> localStream opts = None"
  shows "st (initOutgoing c uuid u opts) = c \<and> out (initOutgoing c uuid u opts) = [] \<and>
         exn (initOutgoing c uuid u opts) \<noteq> None"
  using assms by (auto simp: initOutgoing_def throw_def)

theorem initOutgoing_fails_fast_witness:
  "CHR ''@'' \<notin> set ''alice'' \<and>
   st (initOutgoing fresh_call ''uuid-1'' ''alice'' (with_stream microphone)) = fresh_call \<and>
   out (initOutgoing fresh_call ''uuid-1'' ''alice'' (with_stream microphone)) = [] \<and>
   exn (initOutgoing fresh_call ''uuid-1'' ''alice'' (with_stream microphone)) \<noteq> None \<and>
   localStream without_stream = None \<and>
   st (initOutgoing fresh_call ''uuid-1'' ''alice@example.com'' without_stream) = fresh_call \<and>
   out (initOutgoing fresh_call ''uuid-1'' ''alice@example.com'' without_stream) = [] \<and>
   exn (initOutgoing fresh_call ''uuid-1'' ''alice@example.com'' without_stream) \<noteq> None"
proof -
  have h1: "CHR ''@'' \<notin> set ''alice'' \<or> localStream (with_stream microphone) = None"
    by simp
  have h2: "CHR ''@'' \<notin> set ''alice@example.com'' \<or> localStream without_stream = None"
    by (simp add: without_stream_def)
  show ?thesis
    using initOutgoing_fails_fast[OF h1, of fresh_call "''uuid-1''"]
      initOutgoing_fails_fast[OF h2, of fresh_call "''uuid-1''"]
    by (simp add: without_stream_def)
qed

text \<open>
  C7. \<^verbatim>\<open>answer()\<close> on a session whose state is not \<^verbatim>\<open>incoming\<close>, or without a
  local stream, raises at once, with the object unchanged and no call made on a
  collaborator. \<^verbatim>\<open>_initRTCPeerConnection\<close> on a session that has a peer connection
  raises the same way, and so does \<^verbatim>\<open>answer()\<close> then.
\<close>

theorem answer_fails_fast:
  "(state c \<noteq> Some ''incoming'' \<or> localStream opts = None \<longrightarrow>
      st (answer c opts) = c \<and> out (answer c opts) = [] \<and> exn (answer c opts) \<noteq> None) \<and>
   (pc c \<noteq> None \<longrightarrow>
      initRTCPeerConnection c cfg = throw c [] (Error ''RTCPeerConnection already initialized'') \<and>
      st (answer c opts) = c \<and> out (answer c opts) = [] \<and> exn (answer c opts) \<noteq> None)"
  by (auto simp: answer_def initRTCPeerConnection_def prim split: option.splits)

theorem answer_fails_fast_witness:
  "state (outgoing_call microphone) \<noteq> Some ''incoming'' \<and>
   pc (outgoing_call microphone) \<noteq> None \<and>
   st (answer (outgoing_call microphone) (with_stream microphone)) = outgoing_call microphone \<and>
   out (answer (outgoing_call microphone) (with_stream microphone)) = [] \<and>
   exn (answer (outgoing_call microphone) (with_stream microphone)) \<noteq> None \<and>
   initRTCPeerConnection (outgoing_call microphone) (PcConfig []) =
     throw (outgoing_call microphone) [] (Error ''RTCPeerConnection already initialized'') \<and>
   localStream without_stream = None \<and>
   st (answer incoming_call without_stream) = incoming_call \<and>
   out (answer incoming_call without_stream) = [] \<and>
   exn (answer incoming_call without_stream) \<noteq> None"
proof -
  have h: "state (outgoing_call microphone) \<noteq> Some ''incoming''"
    "pc (outgoing_call microphone) \<noteq> None"
    by (simp_all add: outgoing_call_eq)
  have l: "localStream without_stream = None"
    by (simp add: without_stream_def)
  show ?thesis
    using answer_fails_fast[of "outgoing_call microphone" "with_stream microphone" "PcConfig []"]
      answer_fails_fast[of incoming_call without_stream "PcConfig []"] h l
    by simp
qed

section \<open>Candidates\<close>

lemma run_candidates:
  "run c (map OnIceCandidate cs) =
     (c, map (\<lambda>x. SendRequest (SessionTrickle (cid c) (case x of Some y \<Rightarrow> [y] | None \<Rightarrow> []))) cs)"
  by (induction cs) (simp_all add: onIceCandidate_def sendTrickle_def ok_def observed_def)

text \<open>
  C8. The candidate listener sends one session-trickle request per invocation, in the
  same handler run: with the candidate as the only element for a candidate, with an empty
  list for the end-of-candidates marker. A sequence of invocations gives one request
  for each, in order.
\<close>

theorem trickle_one_message_per_candidate:
  "onIceCandidate c (Some x) = ok c [SendRequest (SessionTrickle (cid c) [x])] \<and>
   onIceCandidate c None = ok c [SendRequest (SessionTrickle (cid c) [])] \<and>
   run c (map OnIceCandidate cs) =
     (c, map (\<lambda>x. SendRequest (SessionTrickle (cid c) (case x of Some y \<Rightarrow> [y] | None \<Rightarrow> []))) cs)"
  by (simp add: run_candidates) (simp add: onIceCandidate_def sendTrickle_def)

section \<open>Tones\<close>

lemma sendDtmf_without_pc:
  "dtmfSender c = None \<Longrightarrow> pc c = None \<Longrightarrow> sendDtmf mk c tones d g = ok c []"
  by (simp add: sendDtmf_def create_sender_def prim)

lemma sendDtmf_without_stream:
  "dtmfSender c = None \<Longrightarrow> pc c = Some p \<Longrightarrow> localStreams p = [] \<Longrightarrow>
   sendDtmf mk c tones d g = ok c []"
  by (simp add: sendDtmf_def create_sender_def first_audio_track_def prim)

lemma sendDtmf_creates_sender:
  "dtmfSender c = None \<Longrightarrow> pc c = Some p \<Longrightarrow> localStreams p = s # ss \<Longrightarrow>
   getAudioTracks s = t # ts \<Longrightarrow> mk (JsObj t) = Inr (Some sender) \<Longrightarrow>
   sendDtmf mk c tones d g =
     ok (c\<lparr>dtmfSender := Some sender\<rparr>)
        [Pc_createDTMFSender (JsObj t), Dtmf_addEventListener, InsertDTMF tones d g]"
  by (simp add: sendDtmf_def create_sender_def first_audio_track_def prim)

lemma sendDtmf_reuses_sender:
  "dtmfSender c = Some sender \<Longrightarrow> sendDtmf mk c tones d g = ok c [InsertDTMF tones d g]"
  by (simp add: sendDtmf_def create_sender_def prim)

lemma sendDtmf_without_audio_track:
  "dtmfSender c = None \<Longrightarrow> pc c = Some p \<Longrightarrow> localStreams p = s # ss \<Longrightarrow>
   getAudioTracks s = [] \<Longrightarrow>
   hd (out (sendDtmf mk c tones d g)) = Pc_createDTMFSender JsUndefined \<and>
   (\<forall>e. mk JsUndefined = Inl e \<longrightarrow> exn (sendDtmf mk c tones d g) = Some e)"
  by (auto simp: sendDtmf_def create_sender_def first_audio_track_def prim split: sum.splits)

text \<open>
  C9 does not hold of the code when the first local stream has no audio track. The
  track read is then \<^verbatim>\<open>undefined\<close>, the test \<^verbatim>\<open>track !== null\<close> passes and
  \<^verbatim>\<open>createDTMFSender(undefined)\<close> is called: with the browser's behaviour the
  TypeError leaves \<^verbatim>\<open>sendDtmf\<close>; with a peer connection that returned a sender, a
  sender bound to no audio track is stored and the tones are inserted.
\<close>

theorem sendDtmf_video_only_stream:
  "getLocalStreams (outgoing_call camera_only) = [camera_only] \<and>
   getAudioTracks camera_only = [] \<and>
   dtmfSender (outgoing_call camera_only) = None \<and>
   sendDtmf browser_createDTMFSender (outgoing_call camera_only) ''1'' 100 70 =
     throw (outgoing_call camera_only) [Pc_createDTMFSender JsUndefined]
       (TypeError ''parameter 1 is not of type MediaStreamTrack'') \<and>
   out (sendDtmf (\<lambda>t. Inr (Some (RTCDTMFSender ''none''))) (outgoing_call camera_only) ''1'' 100 70) =
     [Pc_createDTMFSender JsUndefined, Dtmf_addEventListener, InsertDTMF ''1'' 100 70]"
  by (simp add: outgoing_call_eq camera_only_def browser_createDTMFSender_def handlers prim
      Let_def getLocalStreams_def)

section \<open>Stream getters\<close>

text \<open>
  C10. \<^verbatim>\<open>getLocalStreams()\<close> and \<^verbatim>\<open>getRemoteStreams()\<close> have no raise of their own
  and read the peer connection only when there is one: on a session without a peer
  connection both return the empty list. That is the case on a new object and after
  \<^verbatim>\<open>_closeRTCPeerConnection\<close>.
\<close>

theorem getStreams_without_pc:
  "(pc c = None \<longrightarrow> getLocalStreams c = [] \<and> getRemoteStreams c = []) \<and>
   getLocalStreams (new_call a n) = [] \<and> getRemoteStreams (new_call a n) = [] \<and>
   getLocalStreams (st (closeRTCPeerConnection c)) = [] \<and>
   getRemoteStreams (st (closeRTCPeerConnection c)) = []"
  by (simp add: getLocalStreams_def getRemoteStreams_def new_call_def
        closeRTCPeerConnection_def ok_def Let_def split: option.splits)

theorem getStreams_without_pc_witness:
  "pc incoming_call = None \<and> getLocalStreams incoming_call = [] \<and>
   getRemoteStreams incoming_call = [] \<and>
   getLocalStreams (outgoing_call microphone) = [microphone] \<and>
   getLocalStreams (st (closeRTCPeerConnection (outgoing_call microphone))) = []"
proof -
  have h: "pc incoming_call = None" by (simp add: incoming_call_eq)
  have l: "getLocalStreams (outgoing_call microphone) = [microphone]"
    by (simp add: outgoing_call_eq getLocalStreams_def)
  show ?thesis
    using getStreams_without_pc[of incoming_call "''a''" None] h l
      getStreams_without_pc[of "outgoing_call microphone" "''a''" None]
    by simp
qed

end
